theory Spec2Isabelle
  imports Complex_Main "HOL-Library.AList"
begin

section \<open>Readings and the bounded deque\<close>

text \<open>
  \<^verbatim>\<open>src/dashboard/app.py\<close> keeps its readings in one
  \<^verbatim>\<open>deque(maxlen=DEQUE_SIZE)\<close>. A reading is the dictionary
  \<^verbatim>\<open>{"Temp": temp, "Timestamp": timestamp}\<close> built at line 68. The timestamp is the
  text \<^verbatim>\<open>datetime.now().strftime("%Y-%m-%d %H:%M:%S")\<close>; that text is represented here
  by the instant it spells, in whole seconds, so that every timestamp of the model is one
  that \<^verbatim>\<open>strptime\<close> and \<^verbatim>\<open>pd.to_datetime\<close> read back.
\<close>

type_synonym instant = nat

record reading =
  Temp :: real
  Timestamp :: instant

definition UPDATE_INTERVAL_SECS :: nat where
  "UPDATE_INTERVAL_SECS = 1"

definition DEQUE_SIZE :: nat where
  "DEQUE_SIZE = 10"

record 'a deque =
  maxlen :: nat
  items :: "'a list"

definition deque_new :: "nat \<Rightarrow> 'a deque" where
  "deque_new m = \<lparr>maxlen = m, items = []\<rparr>"

text \<open>
  \<^verbatim>\<open>deque.append\<close> on a bounded deque: the element goes to the right end, and when the
  length then exceeds \<^verbatim>\<open>maxlen\<close> one element is dropped from the left end.
\<close>

definition deque_append :: "'a deque \<Rightarrow> 'a \<Rightarrow> 'a deque" where
  "deque_append d x =
     (let xs = items d @ [x]
      in d\<lparr>items := (if maxlen d < length xs then tl xs else xs)\<rparr>)"

text \<open>Pushing a sequence of readings, one \<^verbatim>\<open>append\<close> each, onto a fresh deque.\<close>

definition pushes :: "nat \<Rightarrow> 'a list \<Rightarrow> 'a deque" where
  "pushes m xs = foldl deque_append (deque_new m) xs"

section \<open>The reading source (lines 66 to 68)\<close>

text \<open>
  \<^verbatim>\<open>random.uniform(a, b)\<close> is \<^verbatim>\<open>a + (b - a) * random()\<close>, where the draw
  \<^verbatim>\<open>random()\<close> lies in the interval from 0 to 1. The draw and the clock are the inputs
  of one execution; numbers are real numbers, the floating-point rounding of the
  arithmetic is not modelled.
\<close>

record env =
  draw :: real
  now :: instant

definition uniform :: "real \<Rightarrow> real \<Rightarrow> real \<Rightarrow> real" where
  "uniform a b u = a + (b - a) * u"

text \<open>Python's \<^verbatim>\<open>round(x, ndigits)\<close>: to the nearest multiple, a tie to the even one.\<close>

definition round_half_even :: "real \<Rightarrow> int" where
  "round_half_even x =
     (let f = \<lfloor>x\<rfloor>; d = x - of_int f
      in if d < 1 / 2 then f
         else if 1 / 2 < d then f + 1
         else if even f then f else f + 1)"

definition py_round :: "real \<Rightarrow> nat \<Rightarrow> real" where
  "py_round x ndigits = of_int (round_half_even (x * 10 ^ ndigits)) / 10 ^ ndigits"

definition new_dictionary_entry :: "env \<Rightarrow> reading" where
  "new_dictionary_entry e =
     \<lparr>Temp = py_round (uniform 17 23 (draw e)) 1, Timestamp = now e\<rparr>"

section \<open>Errors and data frames\<close>

datatype error =
    UnboundLocalError string
  | KeyError string
  | ValueError
  | TypeError
  | AttributeError

definition ebind :: "error + 'a \<Rightarrow> ('a \<Rightarrow> error + 'b) \<Rightarrow> error + 'b" where
  "ebind r f = (case r of Inl e \<Rightarrow> Inl e | Inr v \<Rightarrow> f v)"

text \<open>
  A float that a division may have left undefined: \<open>NaN\<close> is what the floating-point
  quotient of zero by zero is, and it spreads through sums and products.
\<close>

datatype flt = Fin real | NaN

fun fadd :: "flt \<Rightarrow> flt \<Rightarrow> flt" where
  "fadd (Fin a) (Fin b) = Fin (a + b)"
| "fadd _ _ = NaN"

fun fsub :: "flt \<Rightarrow> flt \<Rightarrow> flt" where
  "fsub (Fin a) (Fin b) = Fin (a - b)"
| "fsub _ _ = NaN"

fun fmul :: "flt \<Rightarrow> flt \<Rightarrow> flt" where
  "fmul (Fin a) (Fin b) = Fin (a * b)"
| "fmul _ _ = NaN"

text \<open>
  A column of a pandas frame: the floats of \<^verbatim>\<open>Temp\<close>, the timestamp texts, the
  datetimes line 187 turns them into, and the fitted values of line 211.
\<close>

datatype column =
    Numbers "real list"
  | Texts "instant list"
  | Datetimes "instant list"
  | Fits "flt list"

record dataframe =
  nrows :: nat
  cols :: "(string \<times> column) list"

text \<open>
  \<^verbatim>\<open>pd.DataFrame(deque_snapshot)\<close> (line 77): one row per dictionary, one column per
  key. A deque with no dictionary gives a frame with no row and no column.
\<close>

definition DataFrame :: "reading list \<Rightarrow> dataframe" where
  "DataFrame rs =
     (if rs = [] then \<lparr>nrows = 0, cols = []\<rparr>
      else \<lparr>nrows = length rs,
            cols = [(''Temp'', Numbers (map Temp rs)),
                    (''Timestamp'', Texts (map Timestamp rs))]\<rparr>)"

definition df_empty :: "dataframe \<Rightarrow> bool" where
  "df_empty df \<longleftrightarrow> nrows df = 0 \<or> cols df = []"

definition len_df :: "dataframe \<Rightarrow> nat" where
  "len_df df = nrows df"

definition getitem :: "dataframe \<Rightarrow> string \<Rightarrow> error + column" where
  "getitem df c = (case map_of (cols df) c of None \<Rightarrow> Inl (KeyError c) | Some v \<Rightarrow> Inr v)"

text \<open>
  \<^verbatim>\<open>df[c] = v\<close>: an existing column is replaced where it stands, a new one goes last.
  Both assignments of the source (lines 187 and 211) give as many values as the frame
  has rows.
\<close>

definition setitem :: "dataframe \<Rightarrow> string \<Rightarrow> column \<Rightarrow> dataframe" where
  "setitem df c v = df\<lparr>cols := AList.update c v (cols df)\<rparr>"

text \<open>
  \<^verbatim>\<open>pd.to_datetime\<close> on the column line 187 gives it: texts when the frame is fresh,
  datetimes once line 187 has run on it. The source passes no numeric column; what
  pandas makes of one is not modelled and stands as an error.
\<close>

fun to_datetime :: "column \<Rightarrow> error + column" where
  "to_datetime (Texts ts) = Inr (Datetimes ts)"
| "to_datetime (Datetimes ts) = Inr (Datetimes ts)"
| "to_datetime (Numbers _) = Inl TypeError"
| "to_datetime (Fits _) = Inl TypeError"

text \<open>The boolean masks \<^verbatim>\<open>df['Temp'] > t\<close> and \<^verbatim>\<open>df['Temp'] <= t\<close>.\<close>

fun gt_mask :: "column \<Rightarrow> real \<Rightarrow> error + bool list" where
  "gt_mask (Numbers ys) t = Inr (map (\<lambda>v. t < v) ys)"
| "gt_mask (Fits fs) t = Inr (map (\<lambda>f. case f of Fin v \<Rightarrow> t < v | NaN \<Rightarrow> False) fs)"
| "gt_mask (Texts _) t = Inl TypeError"
| "gt_mask (Datetimes _) t = Inl TypeError"

fun le_mask :: "column \<Rightarrow> real \<Rightarrow> error + bool list" where
  "le_mask (Numbers ys) t = Inr (map (\<lambda>v. v \<le> t) ys)"
| "le_mask (Fits fs) t = Inr (map (\<lambda>f. case f of Fin v \<Rightarrow> v \<le> t | NaN \<Rightarrow> False) fs)"
| "le_mask (Texts _) t = Inl TypeError"
| "le_mask (Datetimes _) t = Inl TypeError"

definition keep :: "bool list \<Rightarrow> 'a list \<Rightarrow> 'a list" where
  "keep msk xs = map snd (filter fst (zip msk xs))"

fun col_select :: "bool list \<Rightarrow> column \<Rightarrow> column" where
  "col_select msk (Numbers ys) = Numbers (keep msk ys)"
| "col_select msk (Texts ts) = Texts (keep msk ts)"
| "col_select msk (Datetimes ts) = Datetimes (keep msk ts)"
| "col_select msk (Fits fs) = Fits (keep msk fs)"

text \<open>\<^verbatim>\<open>df[msk]\<close>: the rows whose mask entry is true.\<close>

definition select_rows :: "dataframe \<Rightarrow> bool list \<Rightarrow> dataframe" where
  "select_rows df msk =
     \<lparr>nrows = length (filter id msk),
      cols = map (\<lambda>(c, v). (c, col_select msk v)) (cols df)\<rparr>"

section \<open>Figures\<close>

text \<open>
  What the charts hold of the data: their traces. Axis labels, colours and the other
  decorations of plotly are left out.
\<close>

record trace =
  trace_name :: string
  trace_mode :: string
  trace_x :: column
  trace_y :: column

record figure =
  fig_title :: string
  traces :: "trace list"

record pie_chart =
  pie_title :: string
  pie_labels :: "string list"
  pie_values :: "nat list"

definition px_scatter :: "dataframe \<Rightarrow> string \<Rightarrow> string \<Rightarrow> string \<Rightarrow> error + figure" where
  "px_scatter df x y ttl =
     (case (map_of (cols df) x, map_of (cols df) y) of
        (Some cx, Some cy) \<Rightarrow>
          Inr \<lparr>fig_title = ttl,
               traces = [\<lparr>trace_name = [], trace_mode = ''markers'',
                          trace_x = cx, trace_y = cy\<rparr>]\<rparr>
      | _ \<Rightarrow> Inl ValueError)"

definition add_scatter :: "figure \<Rightarrow> column \<Rightarrow> column \<Rightarrow> string \<Rightarrow> string \<Rightarrow> figure" where
  "add_scatter fig x y md nm =
     fig\<lparr>traces := traces fig @
            [\<lparr>trace_name = nm, trace_mode = md, trace_x = x, trace_y = y\<rparr>]\<rparr>"

section \<open>The regression routine\<close>

text \<open>
  Modelled from the spec: \<^verbatim>\<open>scipy.stats.linregress\<close>, which line 210 calls, is a library
  routine and not a file under \<^verbatim>\<open>src/\<close>. The mean, the covariance and the variance
  are the ones the Trend Estimator section of the specification names, each a mean
  over the \<open>n\<close> points.
\<close>

definition mean :: "real list \<Rightarrow> real" where
  "mean xs = sum_list xs / real (length xs)"

definition covariance :: "real list \<Rightarrow> real list \<Rightarrow> real" where
  "covariance xs ys = mean (map2 (\<lambda>x y. (x - mean xs) * (y - mean ys)) xs ys)"

definition variance :: "real list \<Rightarrow> real" where
  "variance xs = covariance xs xs"

text \<open>
  Modelled from the spec: the slope and the intercept of \<^verbatim>\<open>scipy.stats.linregress\<close>
  are those of the Trend Estimator section, slope = covariance(x, y) / variance(x) and
  intercept = mean(y) - slope * mean(x). Where the variance of x is zero the covariance
  is zero as well, the quotient is zero by zero, and the slope is \<open>NaN\<close>. Inputs
  that are empty, of different lengths or not numeric are refused. The other results
  of the routine (\<^verbatim>\<open>r_value\<close>, \<^verbatim>\<open>p_value\<close>, \<^verbatim>\<open>std_err\<close>) are bound at line 210 and
  never used, and are left out.
\<close>

definition linregress :: "real list \<Rightarrow> column \<Rightarrow> error + flt \<times> flt" where
  "linregress x y_vals =
     (case y_vals of
        Numbers y \<Rightarrow>
          if x = [] \<or> y = [] \<or> length x \<noteq> length y then Inl ValueError
          else
            let slope = (if variance x = 0 then NaN else Fin (covariance x y / variance x));
                intercept = fsub (Fin (mean y)) (fmul slope (Fin (mean x)))
            in Inr (slope, intercept)
      | _ \<Rightarrow> Inl TypeError)"

section \<open>The two pure consumers of the table\<close>

text \<open>
  Lines 205 to 210 of \<^verbatim>\<open>display_plot\<close>, the Trend Estimator: the positions
  \<^verbatim>\<open>0 .. len(df) - 1\<close> against the \<^verbatim>\<open>Temp\<close> column.
\<close>

definition x_vals_of :: "dataframe \<Rightarrow> real list" where
  "x_vals_of df = map real [0..<len_df df]"

definition trend_estimator :: "dataframe \<Rightarrow> error + flt \<times> flt" where
  "trend_estimator df =
     ebind (getitem df ''Temp'') (\<lambda>y_vals. linregress (x_vals_of df) y_vals)"

definition best_fit_line :: "flt \<times> flt \<Rightarrow> real list \<Rightarrow> column" where
  "best_fit_line t x_vals =
     Fits (map (\<lambda>x. fadd (fmul (fst t) (Fin x)) (snd t)) x_vals)"

text \<open>
  The body of \<^verbatim>\<open>display_plot\<close> (lines 184 to 219) on the table it fetched. It assigns to
  two columns of that table, so the result is the outcome together with the table as
  the body leaves it. With an empty table the \<^verbatim>\<open>if\<close> is skipped and
  \<^verbatim>\<open>return fig\<close> finds no \<^verbatim>\<open>fig\<close>.
\<close>

definition display_plot_body :: "dataframe \<Rightarrow> (error + figure) \<times> dataframe" where
  "display_plot_body df =
     (if \<not> df_empty df then
        (case ebind (getitem df ''Timestamp'') to_datetime of
           Inl e \<Rightarrow> (Inl e, df)
         | Inr dt \<Rightarrow>
             let df1 = setitem df ''Timestamp'' dt in
             (case px_scatter df1 ''Timestamp'' ''Temp''
                     ''Temperature Readings with Regression Line'' of
                Inl e \<Rightarrow> (Inl e, df1)
              | Inr fig \<Rightarrow>
                  (case trend_estimator df1 of
                     Inl e \<Rightarrow> (Inl e, df1)
                   | Inr t \<Rightarrow>
                       let df2 = setitem df1 ''best_fit_line'' (best_fit_line t (x_vals_of df1))
                       in (ebind (getitem df2 ''Timestamp'') (\<lambda>tx.
                           ebind (getitem df2 ''best_fit_line'') (\<lambda>ty.
                           Inr (add_scatter fig tx ty ''lines'' ''Regression Line''))),
                           df2))))
      else (Inl (UnboundLocalError ''fig''), df))"

text \<open>
  The body of \<^verbatim>\<open>display_pie_chart\<close> (lines 231 to 241), the Distribution Bucketer with
  its threshold of 20.
\<close>

definition bucket :: "dataframe \<Rightarrow> error + nat \<times> nat" where
  "bucket df =
     ebind (getitem df ''Temp'') (\<lambda>c1.
     ebind (gt_mask c1 20) (\<lambda>m1.
     let over_20 = len_df (select_rows df m1) in
     ebind (getitem df ''Temp'') (\<lambda>c2.
     ebind (le_mask c2 20) (\<lambda>m2.
     let under_20 = len_df (select_rows df m2) in
     Inr (over_20, under_20)))))"

definition display_pie_chart_body :: "dataframe \<Rightarrow> error + pie_chart" where
  "display_pie_chart_body df =
     ebind (bucket df) (\<lambda>(over_20, under_20).
       Inr \<lparr>pie_title = ''Temperature Distribution'',
            pie_labels = [''Days over 20 Celsius'', ''Days under 20 Celsius''],
            pie_values = [over_20, under_20]\<rparr>)"

section \<open>The shared objects and the reactive calculation\<close>

text \<open>
  The deque and the frames are objects that several names refer to, so they live in a
  store and are known by their addresses. \<^verbatim>\<open>reactive_value_wrapper\<close> holds the address
  of the one deque (line 48); every execution of the calculation allocates one frame.
  The decorator and the timer are Shiny's: \<^verbatim>\<open>@reactive.calc()\<close> keeps the tuple its
  function returned until the calculation is invalidated, and runs the function again
  only when it is read while nothing is kept; \<^verbatim>\<open>reactive.invalidate_later\<close> arms a
  timer whose firing invalidates the calculation. Reading an address that holds no
  object of the expected kind stands as an error; no run does it (\<open>inv\<close> below).
\<close>

type_synonym addr = nat

datatype obj = DequeObj "reading deque" | FrameObj dataframe

type_synonym combined = "addr \<times> addr \<times> reading"

record world =
  heap :: "addr \<Rightarrow> obj option"
  next_addr :: addr
  cached :: "combined option"
  timer_armed :: bool

definition reactive_value_wrapper :: addr where
  "reactive_value_wrapper = 0"

definition init_world :: world where
  "init_world =
     \<lparr>heap = (\<lambda>a. None)(reactive_value_wrapper := Some (DequeObj (deque_new DEQUE_SIZE))),
      next_addr = 1, cached = None, timer_armed = False\<rparr>"

definition deque_at :: "world \<Rightarrow> addr \<Rightarrow> error + reading deque" where
  "deque_at w a = (case heap w a of Some (DequeObj d) \<Rightarrow> Inr d | _ \<Rightarrow> Inl AttributeError)"

definition frame_at :: "world \<Rightarrow> addr \<Rightarrow> error + dataframe" where
  "frame_at w a = (case heap w a of Some (FrameObj f) \<Rightarrow> Inr f | _ \<Rightarrow> Inl AttributeError)"

text \<open>The function under the decorator, lines 62 to 84.\<close>

definition reactive_calc_combined_body :: "env \<Rightarrow> world \<Rightarrow> error + combined \<times> world" where
  "reactive_calc_combined_body e w =
     (let w1 = w\<lparr>timer_armed := True\<rparr>;
          entry = new_dictionary_entry e
      in ebind (deque_at w1 reactive_value_wrapper) (\<lambda>d.
         let w2 = w1\<lparr>heap := (heap w1)(reactive_value_wrapper :=
                                         Some (DequeObj (deque_append d entry)))\<rparr>;
             deque_snapshot = reactive_value_wrapper
         in ebind (deque_at w2 deque_snapshot) (\<lambda>d'.
            let df = next_addr w2;
                w3 = w2\<lparr>heap := (heap w2)(df := Some (FrameObj (DataFrame (items d')))),
                        next_addr := Suc df\<rparr>;
                latest_dictionary_entry = entry
            in Inr ((deque_snapshot, df, latest_dictionary_entry), w3))))"

text \<open>A call of the decorated \<^verbatim>\<open>reactive_calc_combined()\<close>.\<close>

definition reactive_calc_combined :: "env \<Rightarrow> world \<Rightarrow> error + combined \<times> world" where
  "reactive_calc_combined e w =
     (case cached w of
        Some r \<Rightarrow> Inr (r, w)
      | None \<Rightarrow> ebind (reactive_calc_combined_body e w) (\<lambda>(r, w'). Inr (r, w'\<lparr>cached := Some r\<rparr>)))"

text \<open>The timer of \<^verbatim>\<open>invalidate_later\<close> fires: what the calculation kept is dropped.\<close>

definition timer_fire :: "world \<Rightarrow> world" where
  "timer_fire w = (if timer_armed w then w\<lparr>cached := None, timer_armed := False\<rparr> else w)"

section \<open>The display components\<close>

datatype rendered =
    Temp_text real
  | Time_text instant
  | Data_grid dataframe
  | Plot figure
  | Pie pie_chart

definition display_temp :: "env \<Rightarrow> world \<Rightarrow> (error + rendered) \<times> world" where
  "display_temp e w =
     (case reactive_calc_combined e w of
        Inl err \<Rightarrow> (Inl err, w)
      | Inr ((deque_snapshot, df, latest), w') \<Rightarrow> (Inr (Temp_text (Temp latest)), w'))"

definition display_time :: "env \<Rightarrow> world \<Rightarrow> (error + rendered) \<times> world" where
  "display_time e w =
     (case reactive_calc_combined e w of
        Inl err \<Rightarrow> (Inl err, w)
      | Inr ((deque_snapshot, df, latest), w') \<Rightarrow> (Inr (Time_text (Timestamp latest)), w'))"

definition display_df :: "env \<Rightarrow> world \<Rightarrow> (error + rendered) \<times> world" where
  "display_df e w =
     (case reactive_calc_combined e w of
        Inl err \<Rightarrow> (Inl err, w)
      | Inr ((deque_snapshot, df, latest), w') \<Rightarrow>
          (map_sum id Data_grid (frame_at w' df), w'))"

definition display_plot :: "env \<Rightarrow> world \<Rightarrow> (error + rendered) \<times> world" where
  "display_plot e w =
     (case reactive_calc_combined e w of
        Inl err \<Rightarrow> (Inl err, w)
      | Inr ((deque_snapshot, df, latest), w') \<Rightarrow>
          (case frame_at w' df of
             Inl err \<Rightarrow> (Inl err, w')
           | Inr f \<Rightarrow>
               (map_sum id Plot (fst (display_plot_body f)),
                w'\<lparr>heap := (heap w')(df := Some (FrameObj (snd (display_plot_body f))))\<rparr>)))"

definition display_pie_chart :: "env \<Rightarrow> world \<Rightarrow> (error + rendered) \<times> world" where
  "display_pie_chart e w =
     (case reactive_calc_combined e w of
        Inl err \<Rightarrow> (Inl err, w)
      | Inr ((deque_snapshot, df, latest), w') \<Rightarrow>
          (ebind (frame_at w' df) (\<lambda>f. map_sum id Pie (display_pie_chart_body f)), w'))"

section \<open>Runs of the application\<close>

text \<open>
  What happens to the application: the timer fires, or the framework runs one of the
  display components, with the draw and the clock an execution of the calculation
  would see.
\<close>

datatype event =
    Timer_fire
  | Display_temp env
  | Display_time env
  | Display_df env
  | Display_plot env
  | Display_pie_chart env

fun step :: "world \<Rightarrow> event \<Rightarrow> world" where
  "step w Timer_fire = timer_fire w"
| "step w (Display_temp e) = snd (display_temp e w)"
| "step w (Display_time e) = snd (display_time e w)"
| "step w (Display_df e) = snd (display_df e w)"
| "step w (Display_plot e) = snd (display_plot e w)"
| "step w (Display_pie_chart e) = snd (display_pie_chart e w)"

definition run :: "event list \<Rightarrow> world \<Rightarrow> world" where
  "run evs w = foldl step w evs"

fun env_of :: "event \<Rightarrow> env option" where
  "env_of Timer_fire = None"
| "env_of (Display_temp e) = Some e"
| "env_of (Display_time e) = Some e"
| "env_of (Display_df e) = Some e"
| "env_of (Display_plot e) = Some e"
| "env_of (Display_pie_chart e) = Some e"


text \<open>The readings the deque of \<^verbatim>\<open>reactive_value_wrapper\<close> holds.\<close>

definition buffer :: "world \<Rightarrow> error + reading list" where
  "buffer w = map_sum id items (deque_at w reactive_value_wrapper)"

section \<open>The least-squares criterion\<close>

text \<open>
  The sum of squared residuals of the line \<open>a * x + b\<close> against the points
  \<open>(x, y)\<close>: what an ordinary-least-squares fit makes as small as possible.
\<close>

definition sse :: "real list \<Rightarrow> real list \<Rightarrow> real \<Rightarrow> real \<Rightarrow> real" where
  "sse xs ys a b = (\<Sum>p\<leftarrow>zip xs ys. (snd p - (a * fst p + b))\<^sup>2)"

section \<open>The table as the consumers leave it, and what every run preserves\<close>

text \<open>
  \<open>fitted_frame\<close> and \<open>fitted_figure\<close> name the table and the chart that
  \<^verbatim>\<open>display_plot\<close> ends with on a table of the readings \<open>rs\<close> whose trend is
  \<open>t\<close>. \<open>table_of\<close> says that a frame is the table of \<open>rs\<close>, fresh or
  after \<^verbatim>\<open>display_plot\<close>; \<open>inv\<close> collects what holds of the store in every
  run: the wrapper holds the deque of capacity ten, and what the calculation keeps
  refers to that deque, to the table of its readings and to its newest reading.
\<close>

definition fitted_frame :: "reading list \<Rightarrow> flt \<times> flt \<Rightarrow> dataframe" where
  "fitted_frame rs t =
     \<lparr>nrows = length rs,
      cols = [(''Temp'', Numbers (map Temp rs)),
              (''Timestamp'', Datetimes (map Timestamp rs)),
              (''best_fit_line'', best_fit_line t (map real [0..<length rs]))]\<rparr>"

definition fitted_figure :: "reading list \<Rightarrow> flt \<times> flt \<Rightarrow> figure" where
  "fitted_figure rs t =
     \<lparr>fig_title = ''Temperature Readings with Regression Line'',
      traces = [\<lparr>trace_name = [], trace_mode = ''markers'',
                 trace_x = Datetimes (map Timestamp rs), trace_y = Numbers (map Temp rs)\<rparr>,
                \<lparr>trace_name = ''Regression Line'', trace_mode = ''lines'',
                 trace_x = Datetimes (map Timestamp rs),
                 trace_y = best_fit_line t (map real [0..<length rs])\<rparr>]\<rparr>"

definition table_of :: "dataframe \<Rightarrow> reading list \<Rightarrow> bool" where
  "table_of f rs \<longleftrightarrow>
     f = DataFrame rs \<or> (\<exists>t. trend_estimator (DataFrame rs) = Inr t \<and> f = fitted_frame rs t)"

definition inv :: "world \<Rightarrow> bool" where
  "inv w \<longleftrightarrow>
     (\<exists>d. heap w reactive_value_wrapper = Some (DequeObj d)
        \<and> maxlen d = DEQUE_SIZE
        \<and> length (items d) \<le> DEQUE_SIZE
        \<and> 0 < next_addr w
        \<and> (case cached w of
             None \<Rightarrow> \<not> timer_armed w
           | Some (a, f, l) \<Rightarrow>
               timer_armed w \<and> a = reactive_value_wrapper \<and> 0 < f \<and> f < next_addr w
               \<and> items d \<noteq> [] \<and> l = last (items d)
               \<and> (\<exists>fr. heap w f = Some (FrameObj fr) \<and> table_of fr (items d))))"

section \<open>The bounded history buffer\<close>

lemma maxlen_deque_append: "maxlen (deque_append d x) = maxlen d"
  by (simp add: deque_append_def Let_def)

lemma maxlen_foldl_append: "maxlen (foldl deque_append d xs) = maxlen d"
  by (induction xs arbitrary: d) (simp_all add: maxlen_deque_append)

lemma items_deque_append:
  "items (deque_append d x) =
     (if maxlen d < Suc (length (items d)) then tl (items d @ [x]) else items d @ [x])"
  by (simp add: deque_append_def Let_def)

lemma length_deque_append:
  assumes "length (items d) \<le> maxlen d"
  shows "length (items (deque_append d x)) \<le> maxlen d"
  using assms by (simp add: items_deque_append)

lemma items_foldl_append:
  assumes "length (items d) \<le> maxlen d"
  shows "items (foldl deque_append d xs) =
           drop (length (items d) + length xs - maxlen d) (items d @ xs)"
  using assms
proof (induction xs arbitrary: d)
  case Nil
  then show ?case by simp
next
  case (Cons x xs)
  let ?d = "deque_append d x"
  have len: "length (items ?d) \<le> maxlen ?d"
    using Cons.prems by (simp add: length_deque_append maxlen_deque_append)
  have step: "items (foldl deque_append ?d xs) =
      drop (length (items ?d) + length xs - maxlen d) (items ?d @ xs)"
    using Cons.IH [OF len] by (simp add: maxlen_deque_append)
  show ?case
  proof (cases "maxlen d < Suc (length (items d))")
    case True
    then have full: "length (items d) = maxlen d"
      using Cons.prems by simp
    have it: "items ?d = tl (items d @ [x])"
      using True by (simp add: items_deque_append)
    have app: "items ?d @ xs = drop 1 (items d @ x # xs)"
      by (cases "items d") (simp_all add: it)
    have len': "length (items ?d) = maxlen d"
      using full by (simp add: it)
    have "items (foldl deque_append ?d xs) = drop (length xs) (drop 1 (items d @ x # xs))"
      using step unfolding app len' by simp
    also have "\<dots> = drop (Suc (length xs)) (items d @ x # xs)"
      by (simp only: drop_drop) simp
    finally show ?thesis
      using full by simp
  next
    case False
    then have "items ?d = items d @ [x]"
      by (simp add: items_deque_append)
    then show ?thesis
      using step by simp
  qed
qed

lemma items_pushes: "items (pushes m xs) = drop (length xs - m) xs"
  using items_foldl_append [of "deque_new m" xs]
  by (simp add: pushes_def deque_new_def)

section \<open>Frames, masks and the regression routine\<close>

lemma ebind_simps:
  "ebind (Inl e) f = Inl e"
  "ebind (Inr v) f = f v"
  by (simp_all add: ebind_def)

lemma getitem_DataFrame_Temp:
  "rs \<noteq> [] \<Longrightarrow> getitem (DataFrame rs) ''Temp'' = Inr (Numbers (map Temp rs))"
  by (simp add: getitem_def DataFrame_def)

lemma getitem_DataFrame_Timestamp:
  "rs \<noteq> [] \<Longrightarrow> getitem (DataFrame rs) ''Timestamp'' = Inr (Texts (map Timestamp rs))"
  by (simp add: getitem_def DataFrame_def)

lemma nrows_DataFrame: "nrows (DataFrame rs) = length rs"
  by (simp add: DataFrame_def)

lemma df_empty_DataFrame: "df_empty (DataFrame rs) \<longleftrightarrow> rs = []"
  by (simp add: df_empty_def DataFrame_def)

lemma length_filter_id_map: "length (filter id (map p xs)) = length (filter p xs)"
  by (induction xs) simp_all

lemma bucket_Numbers:
  assumes "getitem df ''Temp'' = Inr (Numbers ys)"
  shows "bucket df = Inr (length (filter (\<lambda>v. 20 < v) ys), length (filter (\<lambda>v. v \<le> 20) ys))"
  using assms
  by (simp add: bucket_def ebind_def len_df_def select_rows_def length_filter_id_map)

lemma bucket_DataFrame:
  assumes "rs \<noteq> []"
  shows "bucket (DataFrame rs) =
     Inr (length (filter (\<lambda>r. 20 < Temp r) rs), length (filter (\<lambda>r. Temp r \<le> 20) rs))"
  using bucket_Numbers [OF getitem_DataFrame_Temp [OF assms]]
  by (simp add: filter_map comp_def)

lemma sum_list_squares_zero:
  fixes xs :: "real list"
  assumes "(\<Sum>x\<leftarrow>xs. (x - m)\<^sup>2) = 0" and "x \<in> set xs"
  shows "x = m"
proof -
  have "\<forall>v \<in> set (map (\<lambda>x. (x - m)\<^sup>2) xs). v = 0"
    using assms(1) by (subst (asm) sum_list_nonneg_eq_0_iff) auto
  with assms(2) show ?thesis by auto
qed

lemma map2_same: "map2 f xs xs = map (\<lambda>x. f x x) xs"
  by (induction xs) simp_all

lemma variance_sum: "variance xs = (\<Sum>x\<leftarrow>xs. (x - mean xs)\<^sup>2) / real (length xs)"
  by (simp add: variance_def covariance_def map2_same power2_eq_square) (simp add: mean_def)

lemma variance_positions:
  assumes "2 \<le> n"
  shows "variance (map real [0..<n]) \<noteq> 0"
proof
  let ?xs = "map real [0..<n]"
  assume "variance ?xs = 0"
  then have z: "(\<Sum>x\<leftarrow>?xs. (x - mean ?xs)\<^sup>2) = 0"
    using assms by (simp add: variance_sum)
  have "real 0 \<in> set ?xs" and "real 1 \<in> set ?xs"
    using assms by auto
  then have "real 0 = mean ?xs" and "real 1 = mean ?xs"
    using sum_list_squares_zero [OF z] by blast+
  then show False by simp
qed

lemma variance_single: "variance [x] = 0"
  by (simp add: variance_sum mean_def)

lemma trend_estimator_DataFrame:
  assumes "rs \<noteq> []"
  shows "trend_estimator (DataFrame rs) =
           linregress (map real [0..<length rs]) (Numbers (map Temp rs))"
  using assms
  by (simp add: trend_estimator_def ebind_def getitem_DataFrame_Temp x_vals_of_def
      len_df_def nrows_DataFrame)

lemma linregress_fit:
  assumes "2 \<le> length y"
  shows "linregress (map real [0..<length y]) (Numbers y) =
     Inr (Fin (covariance (map real [0..<length y]) y / variance (map real [0..<length y])),
          Fin (mean y - covariance (map real [0..<length y]) y / variance (map real [0..<length y])
                 * mean (map real [0..<length y])))"
proof -
  have "y \<noteq> []" using assms by auto
  then show ?thesis
    using variance_positions [OF assms]
    by (simp add: linregress_def Let_def)
qed

lemma linregress_positions_Inr:
  assumes "y \<noteq> []"
  shows "\<exists>t. linregress (map real [0..<length y]) (Numbers y) = Inr t"
  using assms by (simp add: linregress_def Let_def)

lemma trend_estimator_Inr:
  assumes "rs \<noteq> []"
  shows "\<exists>t. trend_estimator (DataFrame rs) = Inr t"
  using assms linregress_positions_Inr [of "map Temp rs"]
  by (simp add: trend_estimator_DataFrame)

lemma trend_estimator_fitted:
  assumes "rs \<noteq> []"
  shows "trend_estimator (setitem (DataFrame rs) ''Timestamp'' c) = trend_estimator (DataFrame rs)"
    and "trend_estimator (fitted_frame rs t) = trend_estimator (DataFrame rs)"
  using assms
  by (simp_all add: trend_estimator_def getitem_def DataFrame_def setitem_def fitted_frame_def
      x_vals_of_def len_df_def)

subsection \<open>The fitted line minimises the squared residuals\<close>

lemma map2_conv: "map2 f xs ys = map (\<lambda>p. f (fst p) (snd p)) (zip xs ys)"
  by (simp add: case_prod_beta)

lemma sum_fst_zip:
  assumes "length xs = length ys"
  shows "(\<Sum>p\<leftarrow>zip xs ys. g (fst p)) = (\<Sum>x\<leftarrow>xs. g x)"
proof -
  have "map (\<lambda>p. g (fst p)) (zip xs ys) = map g (map fst (zip xs ys))"
    by simp
  also have "\<dots> = map g xs"
    using assms by simp
  finally show ?thesis by simp
qed

lemma sum_snd_zip:
  assumes "length xs = length ys"
  shows "(\<Sum>p\<leftarrow>zip xs ys. g (snd p)) = (\<Sum>y\<leftarrow>ys. g y)"
proof -
  have "map (\<lambda>p. g (snd p)) (zip xs ys) = map g (map snd (zip xs ys))"
    by simp
  also have "\<dots> = map g ys"
    using assms by simp
  finally show ?thesis by simp
qed

lemma sum_list_mean:
  assumes "xs \<noteq> []"
  shows "sum_list xs = real (length xs) * mean xs"
  using assms by (simp add: mean_def)

lemma least_squares_optimal:
  assumes len: "length xs = length ys" and ne: "xs \<noteq> []" and v: "variance xs \<noteq> 0"
  defines "s \<equiv> covariance xs ys / variance xs"
  defines "c \<equiv> mean ys - s * mean xs"
  shows "sse xs ys s c \<le> sse xs ys a b"
proof -
  let ?zs = "zip xs ys"
  let ?n = "real (length xs)"
  let ?e = "\<lambda>p. snd p - (s * fst p + c)"
  have n: "0 < ?n" using ne by simp
  have lz: "real (length ?zs) = ?n" using len by simp
  have X: "(\<Sum>p\<leftarrow>?zs. fst p) = ?n * mean xs"
    using sum_fst_zip [OF len, of "\<lambda>x. x"] sum_list_mean [OF ne] by simp
  have ney: "ys \<noteq> []" using ne len by auto
  have Y: "(\<Sum>p\<leftarrow>?zs. snd p) = ?n * mean ys"
    using sum_snd_zip [OF len, of "\<lambda>y. y"] sum_list_mean [OF ney] len by simp
  have E1: "(\<Sum>p\<leftarrow>?zs. ?e p) = 0"
  proof -
    have "(\<Sum>p\<leftarrow>?zs. ?e p) = (\<Sum>p\<leftarrow>?zs. snd p) - (s * (\<Sum>p\<leftarrow>?zs. fst p) + ?n * c)"
      by (simp add: sum_list_subtractf sum_list_addf sum_list_const_mult sum_list_triv lz
          del: length_zip)
    also have "\<dots> = 0"
      by (simp add: X Y c_def algebra_simps)
    finally show ?thesis .
  qed
  have C: "(\<Sum>p\<leftarrow>?zs. (fst p - mean xs) * (snd p - mean ys)) = ?n * covariance xs ys"
    using n by (simp add: covariance_def mean_def map2_conv len)
  have V: "(\<Sum>p\<leftarrow>?zs. (fst p - mean xs) * (fst p - mean xs)) = ?n * variance xs"
  proof -
    have "(\<Sum>p\<leftarrow>?zs. (fst p - mean xs) * (fst p - mean xs))
        = (\<Sum>x\<leftarrow>xs. (x - mean xs) * (x - mean xs))"
      by (rule sum_fst_zip [OF len])
    also have "\<dots> = ?n * variance xs"
      using n by (simp add: variance_sum power2_eq_square)
    finally show ?thesis .
  qed
  have E2: "(\<Sum>p\<leftarrow>?zs. ?e p * (fst p - mean xs)) = 0"
  proof -
    have "(\<Sum>p\<leftarrow>?zs. ?e p * (fst p - mean xs))
        = (\<Sum>p\<leftarrow>?zs. (fst p - mean xs) * (snd p - mean ys)
                   - s * ((fst p - mean xs) * (fst p - mean xs)))"
      by (rule arg_cong [where f = sum_list], rule map_cong) (simp_all add: c_def algebra_simps)
    also have "\<dots> = ?n * covariance xs ys - s * (?n * variance xs)"
      by (simp add: sum_list_subtractf sum_list_const_mult C V)
    also have "\<dots> = 0"
      using v by (simp add: s_def)
    finally show ?thesis .
  qed
  have E3: "(\<Sum>p\<leftarrow>?zs. ?e p * fst p) = 0"
  proof -
    have "(\<Sum>p\<leftarrow>?zs. ?e p * fst p)
        = (\<Sum>p\<leftarrow>?zs. ?e p * (fst p - mean xs) + mean xs * ?e p)"
      by (rule arg_cong [where f = sum_list], rule map_cong) (simp_all add: algebra_simps)
    also have "\<dots> = 0"
      by (simp only: sum_list_addf sum_list_const_mult E1 E2)
    finally show ?thesis .
  qed
  have "sse xs ys s c
      = (\<Sum>p\<leftarrow>?zs. (?e p)\<^sup>2) + 2 * (s - a) * (\<Sum>p\<leftarrow>?zs. ?e p * fst p)
          + 2 * (c - b) * (\<Sum>p\<leftarrow>?zs. ?e p)"
    by (simp add: sse_def E1 E3)
  also have "\<dots> = (\<Sum>p\<leftarrow>?zs. (?e p)\<^sup>2 + 2 * (s - a) * (?e p * fst p) + 2 * (c - b) * ?e p)"
    by (simp only: sum_list_addf sum_list_const_mult)
  also have "\<dots> \<le> (\<Sum>p\<leftarrow>?zs. (snd p - (a * fst p + b))\<^sup>2)"
  proof (rule sum_list_mono)
    fix p
    have "(snd p - (a * fst p + b))\<^sup>2
        - ((?e p)\<^sup>2 + 2 * (s - a) * (?e p * fst p) + 2 * (c - b) * ?e p)
        = ((s - a) * fst p + (c - b))\<^sup>2"
      by (simp add: power2_eq_square algebra_simps)
    moreover have "0 \<le> ((s - a) * fst p + (c - b))\<^sup>2"
      by simp
    ultimately show "(?e p)\<^sup>2 + 2 * (s - a) * (?e p * fst p) + 2 * (c - b) * ?e p
        \<le> (snd p - (a * fst p + b))\<^sup>2"
      by linarith
  qed
  finally show ?thesis
    by (simp add: sse_def)
qed

subsection \<open>What the chart body does to a table\<close>

lemma display_plot_body_DataFrame:
  assumes "rs \<noteq> []" and "trend_estimator (DataFrame rs) = Inr t"
  shows "display_plot_body (DataFrame rs) = (Inr (fitted_figure rs t), fitted_frame rs t)"
proof -
  let ?df1 = "setitem (DataFrame rs) ''Timestamp'' (Datetimes (map Timestamp rs))"
  have t1: "trend_estimator ?df1 = Inr t"
    using assms by (simp add: trend_estimator_fitted)
  have c1: "cols ?df1 = [(''Temp'', Numbers (map Temp rs)),
                         (''Timestamp'', Datetimes (map Timestamp rs))]"
    using assms(1) by (simp add: setitem_def DataFrame_def)
  have n1: "nrows ?df1 = length rs"
    by (simp add: setitem_def nrows_DataFrame)
  have sc: "px_scatter ?df1 ''Timestamp'' ''Temp'' ''Temperature Readings with Regression Line'' =
      Inr \<lparr>fig_title = ''Temperature Readings with Regression Line'',
           traces = [\<lparr>trace_name = [], trace_mode = ''markers'',
                 trace_x = Datetimes (map Timestamp rs), trace_y = Numbers (map Temp rs)\<rparr>]\<rparr>"
    by (simp add: px_scatter_def c1)
  have df2: "setitem ?df1 ''best_fit_line'' (best_fit_line t (x_vals_of ?df1)) = fitted_frame rs t"
    using assms(1)
    by (simp add: setitem_def DataFrame_def fitted_frame_def x_vals_of_def len_df_def)
  have g2: "getitem (fitted_frame rs t) ''Timestamp'' = Inr (Datetimes (map Timestamp rs))"
       "getitem (fitted_frame rs t) ''best_fit_line'' =
          Inr (best_fit_line t (map real [0..<length rs]))"
    by (simp_all add: getitem_def fitted_frame_def)
  have dt: "ebind (getitem (DataFrame rs) ''Timestamp'') to_datetime =
              Inr (Datetimes (map Timestamp rs))"
    using assms(1) by (simp add: getitem_DataFrame_Timestamp ebind_def)
  show ?thesis
    unfolding display_plot_body_def
    using assms(1)
    by (simp add: df_empty_DataFrame dt sc t1 df2 g2 ebind_simps add_scatter_def
        fitted_figure_def)
qed

lemma display_plot_body_fitted:
  assumes "rs \<noteq> []" and "trend_estimator (DataFrame rs) = Inr t"
  shows "display_plot_body (fitted_frame rs t) = (Inr (fitted_figure rs t), fitted_frame rs t)"
proof -
  let ?f = "fitted_frame rs t"
  have ne: "\<not> df_empty ?f"
    using assms(1) by (simp add: df_empty_def fitted_frame_def)
  have dt: "ebind (getitem ?f ''Timestamp'') to_datetime = Inr (Datetimes (map Timestamp rs))"
    by (simp add: getitem_def fitted_frame_def ebind_simps)
  have s1: "setitem ?f ''Timestamp'' (Datetimes (map Timestamp rs)) = ?f"
    by (simp add: setitem_def fitted_frame_def)
  have sc: "px_scatter ?f ''Timestamp'' ''Temp'' ''Temperature Readings with Regression Line'' =
      Inr \<lparr>fig_title = ''Temperature Readings with Regression Line'',
           traces = [\<lparr>trace_name = [], trace_mode = ''markers'',
                 trace_x = Datetimes (map Timestamp rs), trace_y = Numbers (map Temp rs)\<rparr>]\<rparr>"
    by (simp add: px_scatter_def fitted_frame_def)
  have t1: "trend_estimator ?f = Inr t"
    using assms by (simp add: trend_estimator_fitted)
  have s2: "setitem ?f ''best_fit_line'' (best_fit_line t (x_vals_of ?f)) = ?f"
    by (simp add: setitem_def fitted_frame_def x_vals_of_def len_df_def)
  have g2: "getitem ?f ''Timestamp'' = Inr (Datetimes (map Timestamp rs))"
       "getitem ?f ''best_fit_line'' = Inr (best_fit_line t (map real [0..<length rs]))"
    by (simp_all add: getitem_def fitted_frame_def)
  show ?thesis
    unfolding display_plot_body_def
    by (simp add: ne dt s1 sc t1 s2 g2 ebind_simps add_scatter_def fitted_figure_def)
qed

lemma table_of_plot:
  assumes "rs \<noteq> []" and "table_of f rs"
  shows "\<exists>t. trend_estimator (DataFrame rs) = Inr t
            \<and> display_plot_body f = (Inr (fitted_figure rs t), fitted_frame rs t)"
proof -
  from assms(2) consider "f = DataFrame rs"
    | t where "trend_estimator (DataFrame rs) = Inr t" "f = fitted_frame rs t"
    by (auto simp: table_of_def)
  then show ?thesis
  proof cases
    case 1
    obtain t where "trend_estimator (DataFrame rs) = Inr t"
      using trend_estimator_Inr [OF assms(1)] by blast
    then show ?thesis
      using 1 display_plot_body_DataFrame [OF assms(1)] by blast
  next
    case 2
    then show ?thesis
      using display_plot_body_fitted [OF assms(1)] by blast
  qed
qed

lemma table_of_Temp:
  assumes "rs \<noteq> []" and "table_of fr rs"
  shows "getitem fr ''Temp'' = Inr (Numbers (map Temp rs))"
proof -
  from assms(2) consider "fr = DataFrame rs" | t where "fr = fitted_frame rs t"
    by (auto simp: table_of_def)
  then show ?thesis
  proof cases
    case 1
    then show ?thesis by (simp add: getitem_DataFrame_Temp [OF assms(1)])
  next
    case 2
    then show ?thesis by (simp add: getitem_def fitted_frame_def)
  qed
qed

lemma nonempty_table_never_raises:
  assumes "rs \<noteq> []"
  shows "\<exists>fig pie. fst (display_plot_body (DataFrame rs)) = Inr fig
           \<and> display_pie_chart_body (DataFrame rs) = Inr pie"
proof -
  obtain t where "trend_estimator (DataFrame rs) = Inr t"
    using trend_estimator_Inr [OF assms] by blast
  then have "fst (display_plot_body (DataFrame rs)) = Inr (fitted_figure rs t)"
    using display_plot_body_DataFrame [OF assms] by simp
  moreover have "\<exists>pie. display_pie_chart_body (DataFrame rs) = Inr pie"
    by (simp add: display_pie_chart_body_def bucket_DataFrame [OF assms] ebind_simps)
  ultimately show ?thesis by blast
qed

section \<open>The Trend Estimator\<close>

text \<open>
  Claim C3, as the code has it. The claim says that a table of exactly one reading gets
  "no trend". The code has no case of its own for one reading: the guard of line 185
  lets every table with a row through, line 210 calls the regression routine on the
  position 0 and the single value, and line 214 draws the line of its result. The
  variance of the single position is zero, so slope and intercept are \<open>NaN\<close>. At
  the reading of 20 degrees the estimator returns \<open>(NaN, NaN)\<close>, not an absent
  result.
\<close>

theorem single_reading_trend_counterexample:
  "trend_estimator (DataFrame [\<lparr>Temp = 20, Timestamp = 0\<rparr>]) = Inr (NaN, NaN)"
  by (simp add: trend_estimator_DataFrame linregress_def variance_single)

text \<open>
  Claim C3, amended. For every table of exactly one reading the Trend Estimator is the
  regression routine applied to the position 0 and the single value, as for longer
  tables; it raises nothing, its slope and intercept are both \<open>NaN\<close>, and
  \<^verbatim>\<open>display_plot\<close> returns a chart whose regression line is the one fitted value
  \<open>NaN\<close>, which it also stores in the table.
\<close>

theorem single_reading_trend:
  "trend_estimator (DataFrame [r]) = linregress [0] (Numbers [Temp r])
   \<and> trend_estimator (DataFrame [r]) = Inr (NaN, NaN)
   \<and> display_plot_body (DataFrame [r]) =
        (Inr (fitted_figure [r] (NaN, NaN)), fitted_frame [r] (NaN, NaN))"
proof -
  have a: "trend_estimator (DataFrame [r]) = linregress [0] (Numbers [Temp r])"
    by (simp add: trend_estimator_DataFrame)
  have b: "linregress [0] (Numbers [Temp r]) = Inr (NaN, NaN)"
    by (simp add: linregress_def variance_single)
  have c: "display_plot_body (DataFrame [r]) =
        (Inr (fitted_figure [r] (NaN, NaN)), fitted_frame [r] (NaN, NaN))"
    by (rule display_plot_body_DataFrame) (simp_all add: a b)
  from a b c show ?thesis by simp
qed

text \<open>
  Claim C4. For every table of \<open>n \<ge> 2\<close> readings, with the positions
  \<open>0, \<dots>, n - 1\<close> as x and the temperatures as y, the variance of x is not zero and
  the Trend Estimator returns slope = covariance(x, y) / variance(x) and intercept =
  mean(y) - slope * mean(x); that line is an ordinary-least-squares fit, since no line
  \<open>a * x + b\<close> has a smaller sum of squared residuals. For the values 1, 2, 3, 4, 5
  it returns slope 1 and intercept 1.
\<close>

theorem trend_is_least_squares_fit:
  "(2 \<le> length rs \<longrightarrow>
      variance (map real [0..<length rs]) \<noteq> 0
      \<and> trend_estimator (DataFrame rs) =
          Inr (Fin (covariance (map real [0..<length rs]) (map Temp rs)
                      / variance (map real [0..<length rs])),
               Fin (mean (map Temp rs)
                      - covariance (map real [0..<length rs]) (map Temp rs)
                          / variance (map real [0..<length rs])
                        * mean (map real [0..<length rs])))
      \<and> (\<forall>a b.
            sse (map real [0..<length rs]) (map Temp rs)
              (covariance (map real [0..<length rs]) (map Temp rs)
                 / variance (map real [0..<length rs]))
              (mean (map Temp rs)
                 - covariance (map real [0..<length rs]) (map Temp rs)
                     / variance (map real [0..<length rs])
                   * mean (map real [0..<length rs]))
            \<le> sse (map real [0..<length rs]) (map Temp rs) a b))
   \<and> trend_estimator
        (DataFrame [\<lparr>Temp = 1, Timestamp = 0\<rparr>, \<lparr>Temp = 2, Timestamp = 1\<rparr>,
                    \<lparr>Temp = 3, Timestamp = 2\<rparr>, \<lparr>Temp = 4, Timestamp = 3\<rparr>,
                    \<lparr>Temp = 5, Timestamp = 4\<rparr>]) = Inr (Fin 1, Fin 1)"
proof (intro conjI impI allI)
  assume n: "2 \<le> length rs"
  then show v: "variance (map real [0..<length rs]) \<noteq> 0"
    by (rule variance_positions)
  have ne: "rs \<noteq> []" using n by auto
  show "trend_estimator (DataFrame rs) =
          Inr (Fin (covariance (map real [0..<length rs]) (map Temp rs)
                      / variance (map real [0..<length rs])),
               Fin (mean (map Temp rs)
                      - covariance (map real [0..<length rs]) (map Temp rs)
                          / variance (map real [0..<length rs])
                        * mean (map real [0..<length rs])))"
    using linregress_fit [of "map Temp rs"] n
    by (simp add: trend_estimator_DataFrame [OF ne])
  fix a b
  show "sse (map real [0..<length rs]) (map Temp rs)
              (covariance (map real [0..<length rs]) (map Temp rs)
                 / variance (map real [0..<length rs]))
              (mean (map Temp rs)
                 - covariance (map real [0..<length rs]) (map Temp rs)
                     / variance (map real [0..<length rs])
                   * mean (map real [0..<length rs]))
            \<le> sse (map real [0..<length rs]) (map Temp rs) a b"
    using ne by (intro least_squares_optimal v) simp_all
next
  have upt5: "[0..<5] = [0, 1, 2, 3, 4]"
    by (simp add: upt_rec)
  show "trend_estimator
        (DataFrame [\<lparr>Temp = 1, Timestamp = 0\<rparr>, \<lparr>Temp = 2, Timestamp = 1\<rparr>,
                    \<lparr>Temp = 3, Timestamp = 2\<rparr>, \<lparr>Temp = 4, Timestamp = 3\<rparr>,
                    \<lparr>Temp = 5, Timestamp = 4\<rparr>]) = Inr (Fin 1, Fin 1)"
    by (simp add: trend_estimator_DataFrame linregress_def variance_def covariance_def
        mean_def upt5 Let_def)
qed

text \<open>
  The theorem at the readings 17, 18, 19 of three ticks: slope 1 and intercept 17.
\<close>

theorem trend_is_least_squares_fit_witness:
  "2 \<le> length [\<lparr>Temp = 17, Timestamp = 0\<rparr>, \<lparr>Temp = 18, Timestamp = 1\<rparr>,
                 \<lparr>Temp = 19, Timestamp = 2\<rparr>]
   \<and> trend_estimator (DataFrame [\<lparr>Temp = 17, Timestamp = 0\<rparr>, \<lparr>Temp = 18, Timestamp = 1\<rparr>,
                 \<lparr>Temp = 19, Timestamp = 2\<rparr>]) = Inr (Fin 1, Fin 17)"
proof -
  have upt3: "[0..<3] = [0, 1, 2]"
    by (simp add: upt_rec)
  show ?thesis
    using trend_is_least_squares_fit
      [of "[\<lparr>Temp = 17, Timestamp = 0\<rparr>, \<lparr>Temp = 18, Timestamp = 1\<rparr>,
            \<lparr>Temp = 19, Timestamp = 2\<rparr>]"]
    by (simp add: variance_def covariance_def mean_def upt3)
qed

section \<open>The store, the calculation and its runs\<close>

lemma read_cached:
  "cached w = Some r \<Longrightarrow> reactive_calc_combined e w = Inr (r, w)"
  by (simp add: reactive_calc_combined_def)

lemma read_fresh:
  assumes "cached w = None"
    and "heap w reactive_value_wrapper = Some (DequeObj d)"
    and "0 < next_addr w"
  shows "reactive_calc_combined e w =
     Inr ((reactive_value_wrapper, next_addr w, new_dictionary_entry e),
          w\<lparr>heap := (heap w)
                 (reactive_value_wrapper :=
                    Some (DequeObj (deque_append d (new_dictionary_entry e))),
                  next_addr w :=
                    Some (FrameObj (DataFrame (items (deque_append d (new_dictionary_entry e)))))),
            next_addr := Suc (next_addr w),
            cached := Some (reactive_value_wrapper, next_addr w, new_dictionary_entry e),
            timer_armed := True\<rparr>)"
  using assms
  by (simp add: reactive_calc_combined_def reactive_calc_combined_body_def deque_at_def
      ebind_simps Let_def reactive_value_wrapper_def)

lemma items_append_nonempty:
  assumes "0 < maxlen d" and "length (items d) \<le> maxlen d"
  shows "items (deque_append d x) \<noteq> []" and "last (items (deque_append d x)) = x"
proof -
  show "items (deque_append d x) \<noteq> []"
    using assms by (cases "items d") (auto simp: items_deque_append)
  show "last (items (deque_append d x)) = x"
    using assms by (cases "items d") (auto simp: items_deque_append)
qed

lemma inv_init: "inv init_world"
  by (simp add: inv_def init_world_def deque_new_def DEQUE_SIZE_def)

lemma inv_timer_fire: "inv w \<Longrightarrow> inv (timer_fire w)"
  by (auto simp: inv_def timer_fire_def split: option.splits)

lemma inv_read:
  assumes "inv w"
  shows "\<exists>a f l w'. reactive_calc_combined e w = Inr ((a, f, l), w')
            \<and> inv w' \<and> cached w' = Some (a, f, l)"
proof (cases "cached w")
  case (Some r)
  obtain a f l where "r = (a, f, l)" by (cases r)
  then show ?thesis
    using Some assms by (simp add: read_cached)
next
  case None
  obtain d where d: "heap w reactive_value_wrapper = Some (DequeObj d)"
      "maxlen d = DEQUE_SIZE" "length (items d) \<le> DEQUE_SIZE" "0 < next_addr w"
    using assms by (auto simp: inv_def)
  let ?x = "new_dictionary_entry e"
  let ?d = "deque_append d ?x"
  let ?w = "w\<lparr>heap := (heap w)
                 (reactive_value_wrapper := Some (DequeObj ?d),
                  next_addr w := Some (FrameObj (DataFrame (items ?d)))),
            next_addr := Suc (next_addr w),
            cached := Some (reactive_value_wrapper, next_addr w, ?x),
            timer_armed := True\<rparr>"
  have r: "reactive_calc_combined e w = Inr ((reactive_value_wrapper, next_addr w, ?x), ?w)"
    by (rule read_fresh [OF None d(1) d(4)])
  have pos: "0 < maxlen d" and le: "length (items d) \<le> maxlen d"
    using d by (simp_all add: DEQUE_SIZE_def)
  have "inv ?w"
    unfolding inv_def
    using d items_append_nonempty [OF pos le, of ?x] length_deque_append [OF le, of ?x]
    by (simp add: reactive_value_wrapper_def maxlen_deque_append table_of_def)
  then show ?thesis
    using r by simp
qed

lemma inv_cachedD:
  assumes "inv w" and "cached w = Some (a, f, l)"
  shows "\<exists>d fr. a = reactive_value_wrapper \<and> f \<noteq> reactive_value_wrapper
           \<and> deque_at w reactive_value_wrapper = Inr d \<and> maxlen d = DEQUE_SIZE
           \<and> items d \<noteq> [] \<and> l = last (items d)
           \<and> frame_at w f = Inr fr \<and> table_of fr (items d)"
  using assms
  by (auto simp: inv_def deque_at_def frame_at_def reactive_value_wrapper_def)

lemma inv_cached_lt:
  assumes "inv w" and "cached w = Some (a, f, l)"
  shows "f < next_addr w"
  using assms by (auto simp: inv_def)

lemma inv_dequeD:
  assumes "inv w"
  shows "\<exists>d. deque_at w reactive_value_wrapper = Inr d \<and> maxlen d = DEQUE_SIZE
             \<and> length (items d) \<le> DEQUE_SIZE"
  using assms by (auto simp: inv_def deque_at_def)

lemma read_deque:
  assumes "inv w" and "deque_at w reactive_value_wrapper = Inr d"
    and "reactive_calc_combined e w = Inr (r, w')"
  shows "deque_at w' reactive_value_wrapper =
           Inr (if cached w = None then deque_append d (new_dictionary_entry e) else d)"
proof (cases "cached w")
  case (Some r0)
  then show ?thesis
    using assms by (simp add: read_cached)
next
  case None
  have h: "heap w reactive_value_wrapper = Some (DequeObj d)"
    using assms(2) by (auto simp: deque_at_def split: option.splits obj.splits)
  have pos: "0 < next_addr w"
    using assms(1) by (auto simp: inv_def)
  from read_fresh [OF None h pos, of e] assms(3) None pos show ?thesis
    by (auto simp: deque_at_def reactive_value_wrapper_def)
qed

lemma read_keeps_frame:
  assumes "inv w" and "f \<noteq> reactive_value_wrapper" and "f < next_addr w"
    and "reactive_calc_combined e w = Inr (r, w')"
  shows "frame_at w' f = frame_at w f"
proof (cases "cached w")
  case (Some r0)
  then show ?thesis using assms(4) by (simp add: read_cached)
next
  case None
  obtain d where d: "heap w reactive_value_wrapper = Some (DequeObj d)" "0 < next_addr w"
    using assms(1) by (auto simp: inv_def)
  from read_fresh [OF None d, of e] assms(2,3,4) show ?thesis
    by (auto simp: frame_at_def)
qed

lemma world_after_display:
  assumes "reactive_calc_combined e w = Inr (r, w')"
  shows "snd (display_temp e w) = w'" and "snd (display_time e w) = w'"
    and "snd (display_df e w) = w'" and "snd (display_pie_chart e w) = w'"
  using assms
  by (simp_all add: display_temp_def display_time_def display_df_def display_pie_chart_def
      split: prod.splits)

lemma world_after_display_plot:
  assumes "reactive_calc_combined e w = Inr ((a, f, l), w')" and "frame_at w' f = Inr fr"
  shows "snd (display_plot e w) =
           w'\<lparr>heap := (heap w')(f := Some (FrameObj (snd (display_plot_body fr))))\<rparr>"
  using assms by (simp add: display_plot_def)

lemma inv_plot_update:
  assumes "inv w" and "cached w = Some (a, f, l)" and "frame_at w f = Inr fr"
  shows "inv (w\<lparr>heap := (heap w)(f := Some (FrameObj (snd (display_plot_body fr))))\<rparr>)"
proof -
  obtain d fr' where d: "f \<noteq> reactive_value_wrapper"
      "deque_at w reactive_value_wrapper = Inr d" "items d \<noteq> []"
      "frame_at w f = Inr fr'" "table_of fr' (items d)"
    using inv_cachedD [OF assms(1,2)] by blast
  have "fr' = fr" using d(4) assms(3) by simp
  then obtain t where t: "trend_estimator (DataFrame (items d)) = Inr t"
      "display_plot_body fr = (Inr (fitted_figure (items d) t), fitted_frame (items d) t)"
    using table_of_plot [OF d(3)] d(5) by blast
  have "table_of (snd (display_plot_body fr)) (items d)"
    using t by (auto simp: table_of_def)
  then show ?thesis
    using assms(1,2) d(1,2)
    by (auto simp: inv_def deque_at_def reactive_value_wrapper_def
        split: option.splits obj.splits)
qed

lemma inv_step:
  assumes "inv w"
  shows "inv (step w ev)"
proof -
  have disp: "inv (snd (display_temp e w))" "inv (snd (display_time e w))"
     "inv (snd (display_df e w))" "inv (snd (display_pie_chart e w))"
     "inv (snd (display_plot e w))" for e
  proof -
    obtain a f l w' where r: "reactive_calc_combined e w = Inr ((a, f, l), w')"
        "inv w'" "cached w' = Some (a, f, l)"
      using inv_read [OF assms, of e] by blast
    show "inv (snd (display_temp e w))" "inv (snd (display_time e w))"
     "inv (snd (display_df e w))" "inv (snd (display_pie_chart e w))"
      using r by (simp_all add: world_after_display)
    obtain fr where fr: "frame_at w' f = Inr fr"
      using inv_cachedD [OF r(2,3)] by blast
    show "inv (snd (display_plot e w))"
      using inv_plot_update [OF r(2,3) fr] world_after_display_plot [OF r(1) fr] by simp
  qed
  show ?thesis
    by (cases ev) (simp_all add: disp inv_timer_fire assms)
qed

lemma run_snoc: "run (evs @ [ev]) w = step (run evs w) ev"
  by (simp add: run_def)

lemma inv_run: "inv w \<Longrightarrow> inv (run evs w)"
  by (induction evs rule: rev_induct) (simp_all add: run_snoc inv_step, simp add: run_def)

lemma inv_reachable: "inv (run evs init_world)"
  by (rule inv_run [OF inv_init])

lemma heap_timer_fire: "heap (timer_fire w) = heap w"
  by (simp add: timer_fire_def)

lemma deque_at_timer_fire: "deque_at (timer_fire w) a = deque_at w a"
  by (simp add: deque_at_def heap_timer_fire)

lemma cached_timer_fire: "inv w \<Longrightarrow> cached (timer_fire w) = None"
  by (cases "cached w") (auto simp: inv_def timer_fire_def)



lemma step_deque:
  assumes "inv w" and "deque_at w reactive_value_wrapper = Inr d"
  shows "deque_at (step w ev) reactive_value_wrapper =
     Inr (case env_of ev of
            None \<Rightarrow> d
          | Some e \<Rightarrow> if cached w = None then deque_append d (new_dictionary_entry e) else d)"
proof -
  have disp: "deque_at (snd (display_temp e w)) reactive_value_wrapper =
        Inr (if cached w = None then deque_append d (new_dictionary_entry e) else d)"
     "deque_at (snd (display_time e w)) reactive_value_wrapper =
        Inr (if cached w = None then deque_append d (new_dictionary_entry e) else d)"
     "deque_at (snd (display_df e w)) reactive_value_wrapper =
        Inr (if cached w = None then deque_append d (new_dictionary_entry e) else d)"
     "deque_at (snd (display_pie_chart e w)) reactive_value_wrapper =
        Inr (if cached w = None then deque_append d (new_dictionary_entry e) else d)"
     "deque_at (snd (display_plot e w)) reactive_value_wrapper =
        Inr (if cached w = None then deque_append d (new_dictionary_entry e) else d)" for e
  proof -
    obtain a f l w' where r: "reactive_calc_combined e w = Inr ((a, f, l), w')"
        "inv w'" "cached w' = Some (a, f, l)"
      using inv_read [OF assms(1), of e] by blast
    have dq: "deque_at w' reactive_value_wrapper =
        Inr (if cached w = None then deque_append d (new_dictionary_entry e) else d)"
      by (rule read_deque [OF assms r(1)])
    show "deque_at (snd (display_temp e w)) reactive_value_wrapper =
        Inr (if cached w = None then deque_append d (new_dictionary_entry e) else d)"
     "deque_at (snd (display_time e w)) reactive_value_wrapper =
        Inr (if cached w = None then deque_append d (new_dictionary_entry e) else d)"
     "deque_at (snd (display_df e w)) reactive_value_wrapper =
        Inr (if cached w = None then deque_append d (new_dictionary_entry e) else d)"
     "deque_at (snd (display_pie_chart e w)) reactive_value_wrapper =
        Inr (if cached w = None then deque_append d (new_dictionary_entry e) else d)"
      using dq by (simp_all only: world_after_display [OF r(1)])
    obtain fr where fr: "frame_at w' f = Inr fr" "f \<noteq> reactive_value_wrapper"
      using inv_cachedD [OF r(2,3)] by blast
    show "deque_at (snd (display_plot e w)) reactive_value_wrapper =
        Inr (if cached w = None then deque_append d (new_dictionary_entry e) else d)"
      using dq fr(2) unfolding world_after_display_plot [OF r(1) fr(1)]
      by (simp add: deque_at_def)
  qed
  show ?thesis
    by (cases ev) (simp_all add: disp deque_at_timer_fire assms(2))
qed

lemma pushes_snoc: "pushes m (xs @ [x]) = deque_append (pushes m xs) x"
  by (simp add: pushes_def)

lemma reachable_deque_pushes:
  "\<exists>rs. deque_at (run evs init_world) reactive_value_wrapper = Inr (pushes DEQUE_SIZE rs)"
proof (induction evs rule: rev_induct)
  case Nil
  have "deque_at init_world reactive_value_wrapper = Inr (pushes DEQUE_SIZE [])"
    by (simp add: deque_at_def init_world_def pushes_def)
  then show ?case by (auto simp: run_def)
next
  case (snoc ev evs)
  then obtain rs where rs:
    "deque_at (run evs init_world) reactive_value_wrapper = Inr (pushes DEQUE_SIZE rs)"
    by blast
  show ?case
  proof (cases "env_of ev")
    case None
    then show ?thesis
      using step_deque [OF inv_reachable rs, of ev] by (auto simp: run_snoc)
  next
    case (Some e)
    show ?thesis
    proof (cases "cached (run evs init_world) = None")
      case True
      then have "deque_at (run (evs @ [ev]) init_world) reactive_value_wrapper =
          Inr (pushes DEQUE_SIZE (rs @ [new_dictionary_entry e]))"
        using step_deque [OF inv_reachable rs, of ev] Some
        by (simp add: run_snoc pushes_snoc)
      then show ?thesis by blast
    next
      case False
      then show ?thesis
        using step_deque [OF inv_reachable rs, of ev] Some by (auto simp: run_snoc)
    qed
  qed
qed


subsection \<open>Between two firings of the timer\<close>





lemma bucket_table_of:
  assumes "rs \<noteq> []" and "table_of fr rs"
  shows "bucket fr =
     Inr (length (filter (\<lambda>r. 20 < Temp r) rs), length (filter (\<lambda>r. Temp r \<le> 20) rs))"
  using bucket_Numbers [OF table_of_Temp [OF assms]]
  by (simp add: filter_map comp_def)

lemma fetched_table:
  "\<exists>a f l w1 d fr.
      reactive_calc_combined e (run evs init_world) = Inr ((a, f, l), w1)
    \<and> deque_at w1 reactive_value_wrapper = Inr d \<and> items d \<noteq> []
    \<and> frame_at w1 f = Inr fr \<and> table_of fr (items d)"
proof -
  obtain a f l w1 where r: "reactive_calc_combined e (run evs init_world) = Inr ((a, f, l), w1)"
      "inv w1" "cached w1 = Some (a, f, l)"
    using inv_read [OF inv_reachable, of e evs] by blast
  then show ?thesis
    using inv_cachedD [OF r(2,3)] by blast
qed

subsection \<open>The range of the readings\<close>

lemma round_half_even_bounds:
  assumes "of_int lo \<le> x" and "x \<le> of_int hi"
  shows "lo \<le> round_half_even x" and "round_half_even x \<le> hi"
proof -
  have f: "lo \<le> \<lfloor>x\<rfloor>" using assms(1) by (simp add: le_floor_iff)
  have c: "\<lfloor>x\<rfloor> \<le> hi" using assms(2) by (simp add: floor_le_iff)
  show "lo \<le> round_half_even x"
    using f by (simp add: round_half_even_def Let_def)
  show "round_half_even x \<le> hi"
  proof (cases "x = of_int hi")
    case True
    then show ?thesis by (simp add: round_half_even_def Let_def)
  next
    case False
    then have "x < of_int hi" using assms(2) by simp
    then have "\<lfloor>x\<rfloor> < hi" by (simp add: floor_less_iff)
    then show ?thesis by (simp add: round_half_even_def Let_def)
  qed
qed

lemma new_entry_range:
  assumes "0 \<le> draw e" and "draw e \<le> 1"
  shows "17 \<le> Temp (new_dictionary_entry e)" and "Temp (new_dictionary_entry e) \<le> 23"
proof -
  let ?x = "uniform 17 23 (draw e) * 10 ^ 1"
  have lo: "of_int 170 \<le> ?x" and hi: "?x \<le> of_int 230"
    using assms by (simp_all add: uniform_def)
  have "170 \<le> round_half_even ?x" and "round_half_even ?x \<le> 230"
    using round_half_even_bounds [OF lo hi] by simp_all
  then have "(170::real) \<le> of_int (round_half_even ?x)"
    and "of_int (round_half_even ?x) \<le> (230::real)"
    by linarith+
  then show "17 \<le> Temp (new_dictionary_entry e)" and "Temp (new_dictionary_entry e) \<le> 23"
    by (simp_all add: new_dictionary_entry_def py_round_def)
qed

lemma set_items_deque_append: "set (items (deque_append d x)) \<subseteq> insert x (set (items d))"
proof -
  have "set (tl (items d @ [x])) \<subseteq> set (items d @ [x])"
    by (rule list.set_sel(2) [THEN subsetI]) simp
  then show ?thesis
    by (auto simp: items_deque_append)
qed

lemma reachable_range:
  assumes "\<forall>e. Some e \<in> env_of ` set evs \<longrightarrow> 0 \<le> draw e \<and> draw e \<le> 1"
  shows "\<exists>d. deque_at (run evs init_world) reactive_value_wrapper = Inr d
            \<and> (\<forall>r \<in> set (items d). 17 \<le> Temp r \<and> Temp r \<le> 23)"
  using assms
proof (induction evs rule: rev_induct)
  case Nil
  have "deque_at init_world reactive_value_wrapper = Inr (deque_new DEQUE_SIZE)"
    by (simp add: deque_at_def init_world_def)
  then show ?case by (simp add: run_def deque_new_def)
next
  case (snoc ev evs)
  have "\<forall>e. Some e \<in> env_of ` set evs \<longrightarrow> 0 \<le> draw e \<and> draw e \<le> 1"
    using snoc.prems by auto
  then obtain d where d: "deque_at (run evs init_world) reactive_value_wrapper = Inr d"
      "\<forall>r \<in> set (items d). 17 \<le> Temp r \<and> Temp r \<le> 23"
    using snoc.IH by blast
  note st = step_deque [OF inv_reachable d(1), of ev]
  show ?case
  proof (cases "env_of ev")
    case None
    then show ?thesis using st d(2) by (auto simp: run_snoc)
  next
    case (Some e)
    then have "0 \<le> draw e \<and> draw e \<le> 1"
      using snoc.prems by (metis image_eqI in_set_conv_decomp)
    then have rng: "17 \<le> Temp (new_dictionary_entry e)" "Temp (new_dictionary_entry e) \<le> 23"
      using new_entry_range by blast+
    have "\<forall>r \<in> set (items (deque_append d (new_dictionary_entry e))). 17 \<le> Temp r \<and> Temp r \<le> 23"
      using set_items_deque_append [of d "new_dictionary_entry e"] d(2) rng by auto
    then show ?thesis
      using st Some d(2) by (auto simp: run_snoc)
  qed
qed

section \<open>The claims about the buffer, the cache and the consumers\<close>

text \<open>
  Claim C1. After any sequence of pushes onto the empty deque of capacity
  \<open>DEQUE_SIZE\<close>, which is ten, the deque holds at most ten readings, and they are the
  last \<open>min n 10\<close> of the \<open>n\<close> pushed readings in the order pushed. Every prefix
  of a sequence is a sequence, so this holds after every push. With capacity three,
  pushing 1, 2, 3, 4 leaves 2, 3, 4. In every run of the application the deque of
  \<^verbatim>\<open>reactive_value_wrapper\<close> is such a deque: the pushes of the readings generated so
  far.
\<close>

theorem buffer_keeps_last_readings:
  "DEQUE_SIZE = 10
   \<and> length (items (pushes DEQUE_SIZE xs)) \<le> DEQUE_SIZE
   \<and> length (items (pushes DEQUE_SIZE xs)) = min (length xs) DEQUE_SIZE
   \<and> items (pushes DEQUE_SIZE xs) = drop (length xs - min (length xs) DEQUE_SIZE) xs
   \<and> items (pushes 3 [1, 2, 3, 4 :: int]) = [2, 3, 4]
   \<and> (\<exists>rs. deque_at (run evs init_world) reactive_value_wrapper
               = Inr (pushes DEQUE_SIZE rs))"
proof -
  have eq: "length xs - min (length xs) DEQUE_SIZE = length xs - DEQUE_SIZE"
    by simp
  have a: "items (pushes DEQUE_SIZE xs) = drop (length xs - min (length xs) DEQUE_SIZE) xs"
    unfolding eq by (rule items_pushes)
  have b: "length (items (pushes DEQUE_SIZE xs)) = min (length xs) DEQUE_SIZE"
    by (simp add: items_pushes)
  have c: "items (pushes 3 [1, 2, 3, 4 :: int]) = [2, 3, 4]"
    by (simp add: items_pushes)
  have d: "\<exists>rs. deque_at (run evs init_world) reactive_value_wrapper
               = Inr (pushes DEQUE_SIZE rs)"
    by (rule reachable_deque_pushes)
  from a b c d show ?thesis by (simp add: DEQUE_SIZE_def)
qed

text \<open>
  Claim C2. In every run of the application, from the empty buffer of the start on, the
  pure computations return normally, none raises: the Snapshot Builder (the table that
  \<^verbatim>\<open>reactive_calc_combined\<close> builds and \<^verbatim>\<open>display_df\<close> shows), the Trend Estimator on
  that table and the chart of \<^verbatim>\<open>display_plot\<close>, the Distribution Bucketer on that table
  and the chart of \<^verbatim>\<open>display_pie_chart\<close>. The consumers take no argument: they fetch
  the table from \<^verbatim>\<open>reactive_calc_combined\<close>, which appends a reading (line 71) before
  it builds the table (line 77), so the table has a row also when the buffer was empty.
\<close>

theorem consumers_never_raise:
  "buffer init_world = Inr []
   \<and> (\<exists>r w1 g fig pie slope intercept over_20 under_20.
        reactive_calc_combined e (run evs init_world) = Inr (r, w1)
      \<and> fst (display_df e (run evs init_world)) = Inr (Data_grid g)
      \<and> trend_estimator g = Inr (slope, intercept)
      \<and> fst (display_plot e (run evs init_world)) = Inr (Plot fig)
      \<and> bucket g = Inr (over_20, under_20)
      \<and> fst (display_pie_chart e (run evs init_world)) = Inr (Pie pie))
   \<and> (\<exists>fig pie.
        fst (display_plot e init_world) = Inr (Plot fig)
      \<and> fst (display_pie_chart e init_world) = Inr (Pie pie))"
proof -
  have gen: "\<exists>r w1 g fig pie slope intercept over_20 under_20.
        reactive_calc_combined e (run evs init_world) = Inr (r, w1)
      \<and> fst (display_df e (run evs init_world)) = Inr (Data_grid g)
      \<and> trend_estimator g = Inr (slope, intercept)
      \<and> fst (display_plot e (run evs init_world)) = Inr (Plot fig)
      \<and> bucket g = Inr (over_20, under_20)
      \<and> fst (display_pie_chart e (run evs init_world)) = Inr (Pie pie)" for evs
  proof -
    obtain a f l w1 d fr where r:
        "reactive_calc_combined e (run evs init_world) = Inr ((a, f, l), w1)"
        "deque_at w1 reactive_value_wrapper = Inr d" "items d \<noteq> []"
        "frame_at w1 f = Inr fr" "table_of fr (items d)"
      using fetched_table [of e evs] by blast
    obtain t where t: "trend_estimator (DataFrame (items d)) = Inr t"
        "display_plot_body fr = (Inr (fitted_figure (items d) t), fitted_frame (items d) t)"
      using table_of_plot [OF r(3,5)] by blast
    have "trend_estimator fr = trend_estimator (DataFrame (items d))"
      using r(5) trend_estimator_fitted(2) [OF r(3)] by (auto simp: table_of_def)
    then have te: "trend_estimator fr = Inr (fst t, snd t)"
      using t(1) by simp
    have bk: "bucket fr = Inr (length (filter (\<lambda>r. 20 < Temp r) (items d)),
                               length (filter (\<lambda>r. Temp r \<le> 20) (items d)))"
      by (rule bucket_table_of [OF r(3,5)])
    have g: "fst (display_df e (run evs init_world)) = Inr (Data_grid fr)"
      using r(1,4) by (simp add: display_df_def)
    have p: "fst (display_plot e (run evs init_world)) = Inr (Plot (fitted_figure (items d) t))"
      using r(1,4) t(2) by (simp add: display_plot_def)
    have "\<exists>pie. fst (display_pie_chart e (run evs init_world)) = Inr (Pie pie)"
      using r(1,4) bk by (simp add: display_pie_chart_def display_pie_chart_body_def ebind_simps)
    with r(1) g te p bk show ?thesis by blast
  qed
  have b0: "buffer init_world = Inr []"
    by (simp add: buffer_def deque_at_def init_world_def deque_new_def)
  have "\<exists>fig pie. fst (display_plot e init_world) = Inr (Plot fig)
      \<and> fst (display_pie_chart e init_world) = Inr (Pie pie)"
    using gen [of "[]"] by (auto simp: run_def)
  with gen [of evs] b0 show ?thesis by blast
qed

text \<open>
  Claim C5. For every table of readings with a row, the Distribution Bucketer counts
  above the values greater than 20 and at-or-below the values of at most 20, and the two
  counts add up to the number of readings. In every run the table the consumers fetch
  is such a table: it has one row for each reading of the buffer, the bucketer returns
  the two counts over the buffer, and \<^verbatim>\<open>display_pie_chart\<close> draws them. For the values
  18, 19, 20, 21, 22 the counts are 2 and 3.
\<close>

theorem bucket_partitions:
  "(rs \<noteq> [] \<longrightarrow>
      bucket (DataFrame rs) =
        Inr (length (filter (\<lambda>r. 20 < Temp r) rs), length (filter (\<lambda>r. Temp r \<le> 20) rs)))
   \<and> length (filter (\<lambda>r. 20 < Temp r) rs) + length (filter (\<lambda>r. Temp r \<le> 20) rs)
        = length rs
   \<and> (\<exists>r w1 g ws.
        reactive_calc_combined e (run evs init_world) = Inr (r, w1)
      \<and> buffer w1 = Inr ws
      \<and> fst (display_df e (run evs init_world)) = Inr (Data_grid g)
      \<and> nrows g = length ws
      \<and> bucket g = Inr (length (filter (\<lambda>r. 20 < Temp r) ws),
                        length (filter (\<lambda>r. Temp r \<le> 20) ws))
      \<and> fst (display_pie_chart e (run evs init_world))
          = Inr (Pie \<lparr>pie_title = ''Temperature Distribution'',
                      pie_labels = [''Days over 20 Celsius'', ''Days under 20 Celsius''],
                      pie_values = [length (filter (\<lambda>r. 20 < Temp r) ws),
                                    length (filter (\<lambda>r. Temp r \<le> 20) ws)]\<rparr>))
   \<and> bucket (DataFrame [\<lparr>Temp = 18, Timestamp = 0\<rparr>, \<lparr>Temp = 19, Timestamp = 1\<rparr>,
                         \<lparr>Temp = 20, Timestamp = 2\<rparr>, \<lparr>Temp = 21, Timestamp = 3\<rparr>,
                         \<lparr>Temp = 22, Timestamp = 4\<rparr>]) = Inr (2, 3)"
proof (intro conjI impI)
  assume "rs \<noteq> []"
  then show "bucket (DataFrame rs) =
        Inr (length (filter (\<lambda>r. 20 < Temp r) rs), length (filter (\<lambda>r. Temp r \<le> 20) rs))"
    by (rule bucket_DataFrame)
next
  show "length (filter (\<lambda>r. 20 < Temp r) rs) + length (filter (\<lambda>r. Temp r \<le> 20) rs)
          = length rs"
    by (induction rs) auto
next
  obtain a f l w1 d fr where r:
      "reactive_calc_combined e (run evs init_world) = Inr ((a, f, l), w1)"
      "deque_at w1 reactive_value_wrapper = Inr d" "items d \<noteq> []"
      "frame_at w1 f = Inr fr" "table_of fr (items d)"
    using fetched_table [of e evs] by blast
  have bk: "bucket fr = Inr (length (filter (\<lambda>r. 20 < Temp r) (items d)),
                             length (filter (\<lambda>r. Temp r \<le> 20) (items d)))"
    by (rule bucket_table_of [OF r(3,5)])
  have b: "buffer w1 = Inr (items d)"
    using r(2) by (simp add: buffer_def)
  have g: "fst (display_df e (run evs init_world)) = Inr (Data_grid fr)"
    using r(1,4) by (simp add: display_df_def)
  have n: "nrows fr = length (items d)"
    using r(5) by (auto simp: table_of_def nrows_DataFrame fitted_frame_def)
  have p: "fst (display_pie_chart e (run evs init_world))
          = Inr (Pie \<lparr>pie_title = ''Temperature Distribution'',
                      pie_labels = [''Days over 20 Celsius'', ''Days under 20 Celsius''],
                      pie_values = [length (filter (\<lambda>r. 20 < Temp r) (items d)),
                                    length (filter (\<lambda>r. Temp r \<le> 20) (items d))]\<rparr>)"
    using r(1,4) bk by (simp add: display_pie_chart_def display_pie_chart_body_def ebind_simps)
  from r(1) b g n bk p show "\<exists>r w1 g ws.
        reactive_calc_combined e (run evs init_world) = Inr (r, w1)
      \<and> buffer w1 = Inr ws
      \<and> fst (display_df e (run evs init_world)) = Inr (Data_grid g)
      \<and> nrows g = length ws
      \<and> bucket g = Inr (length (filter (\<lambda>r. 20 < Temp r) ws),
                        length (filter (\<lambda>r. Temp r \<le> 20) ws))
      \<and> fst (display_pie_chart e (run evs init_world))
          = Inr (Pie \<lparr>pie_title = ''Temperature Distribution'',
                      pie_labels = [''Days over 20 Celsius'', ''Days under 20 Celsius''],
                      pie_values = [length (filter (\<lambda>r. 20 < Temp r) ws),
                                    length (filter (\<lambda>r. Temp r \<le> 20) ws)]\<rparr>)"
    by blast
next
  show "bucket (DataFrame [\<lparr>Temp = 18, Timestamp = 0\<rparr>, \<lparr>Temp = 19, Timestamp = 1\<rparr>,
                         \<lparr>Temp = 20, Timestamp = 2\<rparr>, \<lparr>Temp = 21, Timestamp = 3\<rparr>,
                         \<lparr>Temp = 22, Timestamp = 4\<rparr>]) = Inr (2, 3)"
    by (simp add: bucket_DataFrame)
qed

text \<open>
  The theorem at the readings 21 and 20: one above, one at the threshold.
\<close>

theorem bucket_partitions_witness:
  "[\<lparr>Temp = 21, Timestamp = 0\<rparr>, \<lparr>Temp = 20, Timestamp = 1\<rparr>] \<noteq> []
   \<and> bucket (DataFrame [\<lparr>Temp = 21, Timestamp = 0\<rparr>, \<lparr>Temp = 20, Timestamp = 1\<rparr>]) = Inr (1, 1)"
  using bucket_partitions [of "[\<lparr>Temp = 21, Timestamp = 0\<rparr>, \<lparr>Temp = 20, Timestamp = 1\<rparr>]"]
  by simp

text \<open>
  Claim C6, as the code has it. The claim says that every firing of the timer appends
  a reading, whether or not anything read the result. The calculation is a
  \<^verbatim>\<open>reactive.calc\<close>: the firing only drops what the calculation kept. After one read
  and one firing with no read after it, the buffer still holds the one reading of the
  first read.
\<close>

theorem idle_tick_counterexample:
  "buffer (run [Display_temp \<lparr>draw = 1 / 2, now = 0\<rparr>, Timer_fire] init_world)
     = buffer (run [Display_temp \<lparr>draw = 1 / 2, now = 0\<rparr>] init_world)
   \<and> buffer (run [Display_temp \<lparr>draw = 1 / 2, now = 0\<rparr>, Timer_fire] init_world)
     = Inr [\<lparr>Temp = 20, Timestamp = 0\<rparr>]"
  by code_simp

text \<open>
  Claim C6, amended. In every run, a firing of the timer leaves the buffer as it is and
  leaves the calculation with nothing kept; the first read after the firing executes
  the function once, which appends exactly one new reading to the deque of capacity
  ten; a further read returns the same result and changes nothing.
\<close>

theorem recomputation_on_read:
  "\<exists>d r w1.
      deque_at (run evs init_world) reactive_value_wrapper = Inr d
    \<and> maxlen d = DEQUE_SIZE
    \<and> deque_at (timer_fire (run evs init_world)) reactive_value_wrapper = Inr d
    \<and> cached (timer_fire (run evs init_world)) = None
    \<and> reactive_calc_combined e (timer_fire (run evs init_world)) = Inr (r, w1)
    \<and> deque_at w1 reactive_value_wrapper = Inr (deque_append d (new_dictionary_entry e))
    \<and> reactive_calc_combined e' w1 = Inr (r, w1)"
proof -
  let ?W = "run evs init_world"
  have iW: "inv ?W" by (rule inv_reachable)
  obtain d where d: "deque_at ?W reactive_value_wrapper = Inr d" "maxlen d = DEQUE_SIZE"
    using inv_dequeD [OF iW] by blast
  have iF: "inv (timer_fire ?W)" by (rule inv_timer_fire [OF iW])
  have dF: "deque_at (timer_fire ?W) reactive_value_wrapper = Inr d"
    using d(1) by (simp add: deque_at_timer_fire)
  have cF: "cached (timer_fire ?W) = None" by (rule cached_timer_fire [OF iW])
  obtain a f l w1 where r: "reactive_calc_combined e (timer_fire ?W) = Inr ((a, f, l), w1)"
      "cached w1 = Some (a, f, l)"
    using inv_read [OF iF, of e] by blast
  have d1: "deque_at w1 reactive_value_wrapper = Inr (deque_append d (new_dictionary_entry e))"
    using read_deque [OF iF dF r(1)] cF by simp
  have r2: "reactive_calc_combined e' w1 = Inr ((a, f, l), w1)"
    by (rule read_cached [OF r(2)])
  from d dF cF r(1) d1 r2 show ?thesis by blast
qed



text \<open>
  Claim C8, as the code has it. The claim says that no consumer modifies the cached
  table. \<^verbatim>\<open>display_plot\<close> assigns to two columns of the table it fetched (lines 187 and
  211), and that table is the cached one. After \<^verbatim>\<open>display_df\<close> the table at address 1
  has the columns \<^verbatim>\<open>Temp\<close> and \<^verbatim>\<open>Timestamp\<close>; after \<^verbatim>\<open>display_plot\<close>, with no
  firing in between and the same tuple kept, its timestamps are datetimes and it has
  a third column.
\<close>

theorem plot_mutates_table_counterexample:
  "frame_at (run [Display_df \<lparr>draw = 1 / 2, now = 0\<rparr>] init_world) 1
     = Inr \<lparr>nrows = 1, cols = [(''Temp'', Numbers [20]), (''Timestamp'', Texts [0])]\<rparr>
   \<and> frame_at (run [Display_df \<lparr>draw = 1 / 2, now = 0\<rparr>,
                      Display_plot \<lparr>draw = 1 / 2, now = 0\<rparr>] init_world) 1
     = Inr \<lparr>nrows = 1, cols = [(''Temp'', Numbers [20]), (''Timestamp'', Datetimes [0]),
                                (''best_fit_line'', Fits [NaN])]\<rparr>
   \<and> cached (run [Display_df \<lparr>draw = 1 / 2, now = 0\<rparr>,
                   Display_plot \<lparr>draw = 1 / 2, now = 0\<rparr>] init_world)
     = Some (0, 1, \<lparr>Temp = 20, Timestamp = 0\<rparr>)"
  by code_simp

text \<open>
  Claim C8, amended. In every run, \<^verbatim>\<open>display_temp\<close>, \<^verbatim>\<open>display_time\<close>,
  \<^verbatim>\<open>display_df\<close> and \<^verbatim>\<open>display_pie_chart\<close> leave the store exactly as their read of
  the combined result leaves it. \<^verbatim>\<open>display_plot\<close> changes one object, the cached
  table: it keeps its rows and its \<^verbatim>\<open>Temp\<close> column, its \<^verbatim>\<open>Timestamp\<close> column
  becomes datetimes and it gains the column \<^verbatim>\<open>best_fit_line\<close>; the deque and what
  the calculation keeps are not touched.
\<close>

theorem consumers_effect_on_table:
  "\<exists>a f l w1 rs fr t.
      reactive_calc_combined e (run evs init_world) = Inr ((a, f, l), w1)
    \<and> buffer w1 = Inr rs
    \<and> frame_at w1 f = Inr fr
    \<and> f \<noteq> a
    \<and> snd (display_temp e (run evs init_world)) = w1
    \<and> snd (display_time e (run evs init_world)) = w1
    \<and> snd (display_df e (run evs init_world)) = w1
    \<and> snd (display_pie_chart e (run evs init_world)) = w1
    \<and> trend_estimator (DataFrame rs) = Inr t
    \<and> snd (display_plot e (run evs init_world))
        = w1\<lparr>heap := (heap w1)(f := Some (FrameObj (fitted_frame rs t)))\<rparr>"
proof -
  let ?W = "run evs init_world"
  obtain a f l w1 where r: "reactive_calc_combined e ?W = Inr ((a, f, l), w1)"
      "inv w1" "cached w1 = Some (a, f, l)"
    using inv_read [OF inv_reachable, of e evs] by blast
  obtain d fr where d: "a = reactive_value_wrapper" "f \<noteq> reactive_value_wrapper"
      "deque_at w1 reactive_value_wrapper = Inr d" "items d \<noteq> []"
      "frame_at w1 f = Inr fr" "table_of fr (items d)"
    using inv_cachedD [OF r(2,3)] by blast
  obtain t where t: "trend_estimator (DataFrame (items d)) = Inr t"
      "display_plot_body fr = (Inr (fitted_figure (items d) t), fitted_frame (items d) t)"
    using table_of_plot [OF d(4,6)] by blast
  have b: "buffer w1 = Inr (items d)"
    using d(3) by (simp add: buffer_def)
  have p: "snd (display_plot e ?W)
        = w1\<lparr>heap := (heap w1)(f := Some (FrameObj (fitted_frame (items d) t)))\<rparr>"
    using world_after_display_plot [OF r(1) d(5)] t(2) by simp
  have na: "f \<noteq> a" using d(1,2) by simp
  from r(1) b d(5) na world_after_display [OF r(1)] t(1) p show ?thesis
    by blast
qed

text \<open>
  Claim C9. When every draw of \<^verbatim>\<open>random()\<close> lies between 0 and 1, every reading in
  the buffer of every run has a temperature between 17 and 23, and so have the latest
  reading and every value of the \<^verbatim>\<open>Temp\<close> column of the cached table, which holds the
  temperatures of the buffer.
\<close>

theorem readings_in_range:
  assumes "\<forall>e. Some e \<in> env_of ` set evs \<longrightarrow> 0 \<le> draw e \<and> draw e \<le> 1"
  shows "\<exists>rs. buffer (run evs init_world) = Inr rs
           \<and> (\<forall>r \<in> set rs. 17 \<le> Temp r \<and> Temp r \<le> 23)
           \<and> (\<forall>a f l. cached (run evs init_world) = Some (a, f, l) \<longrightarrow>
                 17 \<le> Temp l \<and> Temp l \<le> 23
                 \<and> (\<exists>fr. frame_at (run evs init_world) f = Inr fr
                        \<and> getitem fr ''Temp'' = Inr (Numbers (map Temp rs))))"
proof -
  let ?W = "run evs init_world"
  obtain d where d: "deque_at ?W reactive_value_wrapper = Inr d"
      "\<forall>r \<in> set (items d). 17 \<le> Temp r \<and> Temp r \<le> 23"
    using reachable_range [OF assms] by blast
  have b: "buffer ?W = Inr (items d)"
    using d(1) by (simp add: buffer_def)
  have c: "17 \<le> Temp l \<and> Temp l \<le> 23
        \<and> (\<exists>fr. frame_at ?W f = Inr fr \<and> getitem fr ''Temp'' = Inr (Numbers (map Temp (items d))))"
    if h: "cached ?W = Some (a, f, l)" for a f l
  proof -
    obtain d' fr where c: "deque_at ?W reactive_value_wrapper = Inr d'" "items d' \<noteq> []"
        "l = last (items d')" "frame_at ?W f = Inr fr" "table_of fr (items d')"
      using inv_cachedD [OF inv_reachable h] by blast
    have dd: "d' = d" using c(1) d(1) by simp
    have "l \<in> set (items d)" using c(2,3) dd by simp
    then show ?thesis
      using d(2) c(4) table_of_Temp [OF c(2,5)] dd by auto
  qed
  from b d(2) c show ?thesis by blast
qed

text \<open>
  The theorem at a run of two executions, with the draws 1/3 and 1: the readings are
  19 and 23 degrees.
\<close>

theorem readings_in_range_witness:
  "(0::real) \<le> 1 / 3 \<and> (1 / 3 :: real) \<le> 1 \<and> (0::real) \<le> 1 \<and> (1::real) \<le> 1
   \<and> buffer (run [Display_temp \<lparr>draw = 1 / 3, now = 5\<rparr>, Timer_fire,
                   Display_plot \<lparr>draw = 1, now = 6\<rparr>] init_world)
       = Inr [\<lparr>Temp = 19, Timestamp = 5\<rparr>, \<lparr>Temp = 23, Timestamp = 6\<rparr>]
   \<and> (17::real) \<le> 19 \<and> (19::real) \<le> 23 \<and> (17::real) \<le> 23 \<and> (23::real) \<le> 23"
proof -
  have b: "buffer (run [Display_temp \<lparr>draw = 1 / 3, now = 5\<rparr>, Timer_fire,
                   Display_plot \<lparr>draw = 1, now = 6\<rparr>] init_world)
       = Inr [\<lparr>Temp = 19, Timestamp = 5\<rparr>, \<lparr>Temp = 23, Timestamp = 6\<rparr>]"
    by code_simp
  show ?thesis
    using readings_in_range [of "[Display_temp \<lparr>draw = 1 / 3, now = 5\<rparr>, Timer_fire,
                   Display_plot \<lparr>draw = 1, now = 6\<rparr>]"] b
    by simp
qed

text \<open>
  Claim C10. The first component of the combined result is the address of the deque of
  \<^verbatim>\<open>reactive_value_wrapper\<close> itself. A tuple read at one tick, looked at after the
  timer has fired and the next read has executed the function, shows through that
  component the buffer of the later tick, which ends with the later reading. The table
  of the earlier tuple, a separate object, is as it was.
\<close>

theorem buffer_snapshot_is_live:
  "\<exists>a f l w1 d f' l' w2.
      reactive_calc_combined e1 (run evs init_world) = Inr ((a, f, l), w1)
    \<and> deque_at w1 a = Inr d
    \<and> reactive_calc_combined e2 (timer_fire w1) = Inr ((a, f', l'), w2)
    \<and> deque_at w2 a = Inr (deque_append d (new_dictionary_entry e2))
    \<and> buffer w2 = Inr (items (deque_append d (new_dictionary_entry e2)))
    \<and> last (items (deque_append d (new_dictionary_entry e2))) = new_dictionary_entry e2
    \<and> a = reactive_value_wrapper
    \<and> frame_at w2 f = frame_at w1 f"
proof -
  let ?W = "run evs init_world"
  obtain a f l w1 where r: "reactive_calc_combined e1 ?W = Inr ((a, f, l), w1)"
      "inv w1" "cached w1 = Some (a, f, l)"
    using inv_read [OF inv_reachable, of e1 evs] by blast
  obtain d where d: "a = reactive_value_wrapper" "deque_at w1 reactive_value_wrapper = Inr d"
      "f \<noteq> reactive_value_wrapper" "maxlen d = DEQUE_SIZE"
    using inv_cachedD [OF r(2,3)] by blast
  have len: "length (items d) \<le> maxlen d"
    using inv_dequeD [OF r(2)] d(2,4) by auto
  have lst: "last (items (deque_append d (new_dictionary_entry e2))) = new_dictionary_entry e2"
    using items_append_nonempty(2) [OF _ len] d(4) by (simp add: DEQUE_SIZE_def)
  have iF: "inv (timer_fire w1)" by (rule inv_timer_fire [OF r(2)])
  have dF: "deque_at (timer_fire w1) reactive_value_wrapper = Inr d"
    using d(2) by (simp add: deque_at_timer_fire)
  have cF: "cached (timer_fire w1) = None" by (rule cached_timer_fire [OF r(2)])
  obtain a' f' l' w2 where r2: "reactive_calc_combined e2 (timer_fire w1) = Inr ((a', f', l'), w2)"
      "inv w2" "cached w2 = Some (a', f', l')"
    using inv_read [OF iF, of e2] by blast
  have a': "a' = reactive_value_wrapper"
    using inv_cachedD [OF r2(2,3)] by blast
  have d2: "deque_at w2 reactive_value_wrapper = Inr (deque_append d (new_dictionary_entry e2))"
    using read_deque [OF iF dF r2(1)] cF by simp
  then have b2: "buffer w2 = Inr (items (deque_append d (new_dictionary_entry e2)))"
    by (simp add: buffer_def)
  have lt: "f < next_addr (timer_fire w1)"
    using inv_cached_lt [OF r(2,3)] by (simp add: timer_fire_def)
  have "frame_at w2 f = frame_at (timer_fire w1) f"
    by (rule read_keeps_frame [OF iF d(3) lt r2(1)])
  then have fr: "frame_at w2 f = frame_at w1 f"
    by (simp add: frame_at_def heap_timer_fire)
  from r(1) d(1,2) r2(1) a' d2 b2 lst fr show ?thesis by auto
qed

end
